theory Spec2Isabelle
  imports Main "HOL-Library.Sublist"
begin

section \<open>The gig-request API: data model\<close>

text \<open>
  The repository holds two variants of one HTTP service. \<^verbatim>\<open>src/main.go\<close> is the
  single-email variant; \<^verbatim>\<open>src/unnamed/part_000\<close> (its second document) is the
  supplier-aware variant, which adds \<^verbatim>\<open>SupplierEmail\<close>, renames \<^verbatim>\<open>Email\<close> to
  \<^verbatim>\<open>ClientEmail\<close> and filters the listing. Both declare the same Go names, so the
  definitions taken from \<^verbatim>\<open>main.go\<close> carry the suffix \<open>_main\<close> and those taken from
  \<^verbatim>\<open>part_000\<close> keep the source's names.

  Modelling decisions, all of them visible in the definitions below:
  \<^item> Go's \<^verbatim>\<open>string\<close> is a byte sequence compared bytewise by \<^verbatim>\<open>==\<close>; it is \<open>string\<close>
    here, compared by \<open>=\<close>.
  \<^item> Go's \<^verbatim>\<open>int\<close> is \<open>int\<close>. The only arithmetic is \<^verbatim>\<open>nextID++\<close>, executed once per
    appended record; the counter could wrap only after \<open>2^63 - 1\<close> records are held in
    memory at once, which no address space admits, so no wrap-around is written out.
  \<^item> \<^verbatim>\<open>time.Time\<close> is only assigned and copied; an instant is a number of nanoseconds
    after the zero \<^verbatim>\<open>Time\<close>. \<^verbatim>\<open>time.Now()\<close> is an input of the handler (\<open>Now\<close>).
  \<^item> A Go slice is either \<^verbatim>\<open>nil\<close> or allocated; both may have length 0.
  \<^item> The package-level variables \<^verbatim>\<open>requests\<close> and \<^verbatim>\<open>nextID\<close> are the fields of a
    \<open>Store\<close> passed in and returned. Every access to them happens between
    \<^verbatim>\<open>mu.Lock()\<close> and \<^verbatim>\<open>mu.Unlock()\<close>, one critical section per handler call, so a run
    of the server is modelled as the sequence of its handler calls in the order of
    their critical sections (\<open>serve\<close>). The mutex itself has no counterpart.
  \<^item> What a handler does to its \<^verbatim>\<open>http.ResponseWriter\<close> is the list of calls it makes
    on it, in order. \<^verbatim>\<open>json.Decoder.Decode\<close> is an input: the request carries either the
    decoding error or the decoded struct. Whether \<^verbatim>\<open>json.Encoder.Encode\<close> reports an
    error is an input too (\<open>EncodeFails\<close>). \<^verbatim>\<open>log.Printf\<close> is left out.
\<close>

datatype Time = Instant int

datatype 'a slice = nil | Slice "'a list"

fun elems :: "'a slice \<Rightarrow> 'a list" where
  "elems nil = []"
| "elems (Slice xs) = xs"

definition len :: "'a slice \<Rightarrow> nat" where
  "len s = length (elems s)"

text \<open>Go's built-in \<^verbatim>\<open>append(s, x)\<close>: the result is allocated also when \<open>s\<close> is nil.\<close>

fun append_slice :: "'a slice \<Rightarrow> 'a \<Rightarrow> 'a slice" where
  "append_slice nil x = Slice [x]"
| "append_slice (Slice xs) x = Slice (xs @ [x])"

text \<open>\<^verbatim>\<open>type Request struct\<close> of \<^verbatim>\<open>main.go\<close>.\<close>

record Request_main =
  ID :: int
  GigTitle :: string
  Client :: string
  Email :: string
  Details :: string
  CreatedAt :: Time

text \<open>\<^verbatim>\<open>type Request struct\<close> of \<^verbatim>\<open>part_000\<close>.\<close>

record Request =
  ID :: int
  GigTitle :: string
  Client :: string
  ClientEmail :: string
  SupplierEmail :: string
  Details :: string
  CreatedAt :: Time

text \<open>The global state: \<^verbatim>\<open>requests = []Request{}\<close> and \<^verbatim>\<open>nextID = 1\<close>.\<close>

record 'r Store =
  requests :: "'r slice"
  nextID :: int

definition init_store :: "'r Store" where
  "init_store = \<lparr>requests = Slice [], nextID = 1\<rparr>"

text \<open>
  \<^verbatim>\<open>url.Values\<close> is a \<^verbatim>\<open>map[string][]string\<close>, here the list of its entries read with
  \<open>map_of\<close>. \<^verbatim>\<open>Values.Get\<close> returns the first value of the key, or \<^verbatim>\<open>""\<close> when the key
  is absent or has no value.
\<close>

type_synonym Values = "(string \<times> string list) list"

definition Values_Get :: "Values \<Rightarrow> string \<Rightarrow> string" where
  "Values_Get v key =
     (case map_of v key of None \<Rightarrow> '''' | Some [] \<Rightarrow> '''' | Some (x # _) \<Rightarrow> x)"

text \<open>
  The part of \<^verbatim>\<open>*http.Request\<close> the handlers read: the method, the query of the URL and
  the outcome of decoding the body into a \<^verbatim>\<open>Request\<close> (\<open>Inl\<close> the decoder's error text).
\<close>

record 'r http_Request =
  Method :: string
  Query :: Values
  Body :: "string + 'r"

record Env =
  Now :: Time
  EncodeFails :: bool

datatype 'r Call =
    Header_Set string string
  | WriteHeader nat
  | Encode_Request 'r
  | Encode_Requests "'r slice"
  | http_Error string nat

abbreviation StatusOK :: nat where "StatusOK \<equiv> 200"
abbreviation StatusCreated :: nat where "StatusCreated \<equiv> 201"
abbreviation StatusBadRequest :: nat where "StatusBadRequest \<equiv> 400"
abbreviation StatusMethodNotAllowed :: nat where "StatusMethodNotAllowed \<equiv> 405"
abbreviation StatusInternalServerError :: nat where "StatusInternalServerError \<equiv> 500"

type_synonym 'r Handler = "Env \<Rightarrow> 'r http_Request \<Rightarrow> 'r Store \<Rightarrow> 'r Call list \<times> 'r Store"

section \<open>The single-email variant (\<^verbatim>\<open>main.go\<close>)\<close>

text \<open>
  \<^verbatim>\<open>listRequests\<close>, lines 48-60. The request is not read at all. The header and the
  status are written before the lock is taken; \<^verbatim>\<open>requests\<close> is encoded under the lock.
\<close>

definition listRequests_main :: "Request_main Handler" where
  "listRequests_main e r s =
     ([Header_Set ''Content-Type'' ''application/json'', WriteHeader StatusOK,
       Encode_Requests (requests s)]
      @ (if EncodeFails e then [http_Error ''Internal Server Error'' StatusInternalServerError]
         else []),
      s)"

text \<open>
  \<^verbatim>\<open>createRequest\<close>, lines 63-93: the decoding error, the validation, the critical
  section of lines 78-83 and the response. An encoding error is only logged.
\<close>

definition createRequest_main :: "Request_main Handler" where
  "createRequest_main e r s =
     (case Body r of
        Inl err \<Rightarrow> ([http_Error (''Invalid request body: '' @ err) StatusBadRequest], s)
      | Inr newRequest \<Rightarrow>
          if Request_main.GigTitle newRequest = '''' \<or> Request_main.Client newRequest = ''''
             \<or> Email newRequest = ''''
          then ([http_Error ''Missing required fields (gig_title, client, email)''
                   StatusBadRequest], s)
          else
            let newRequest = newRequest\<lparr>Request_main.ID := nextID s\<rparr>;
                newRequest = newRequest\<lparr>Request_main.CreatedAt := Now e\<rparr>;
                s = s\<lparr>requests := append_slice (requests s) newRequest\<rparr>;
                s = s\<lparr>nextID := nextID s + 1\<rparr>
            in ([Header_Set ''Content-Type'' ''application/json'', WriteHeader StatusCreated,
                 Encode_Request newRequest], s))"

definition RequestsHandler_main :: "Request_main Handler" where
  "RequestsHandler_main e r s =
     (if Method r = ''GET'' then listRequests_main e r s
      else if Method r = ''POST'' then createRequest_main e r s
      else ([http_Error ''Method not allowed'' StatusMethodNotAllowed], s))"

section \<open>The supplier-aware variant (\<^verbatim>\<open>part_000\<close>)\<close>

text \<open>
  The loop of lines 100-104, \<^verbatim>\<open>for _, req := range requests\<close>, over the elements still
  to visit, with \<^verbatim>\<open>filteredRequests\<close> as the accumulator.
\<close>

fun range_requests :: "string \<Rightarrow> Request list \<Rightarrow> Request slice \<Rightarrow> Request slice" where
  "range_requests supplierEmailFilter [] filteredRequests = filteredRequests"
| "range_requests supplierEmailFilter (req # rest) filteredRequests =
     range_requests supplierEmailFilter rest
       (if SupplierEmail req = supplierEmailFilter then append_slice filteredRequests req
        else filteredRequests)"

text \<open>
  Lines 96-108: \<^verbatim>\<open>var filteredRequests []Request\<close> starts as nil; with a filter the loop
  fills it, without one it is the slice \<^verbatim>\<open>requests\<close> itself.
\<close>

definition filteredRequests :: "string \<Rightarrow> Request slice \<Rightarrow> Request slice" where
  "filteredRequests supplierEmailFilter reqs =
     (if supplierEmailFilter \<noteq> '''' then range_requests supplierEmailFilter (elems reqs) nil
      else reqs)"

text \<open>\<^verbatim>\<open>listRequests\<close>, lines 87-117.\<close>

definition listRequests :: "Request Handler" where
  "listRequests e r s =
     (let query = Query r;
          supplierEmailFilter = Values_Get query ''supplier_email''
      in ([Header_Set ''Content-Type'' ''application/json'', WriteHeader StatusOK,
           Encode_Requests (filteredRequests supplierEmailFilter (requests s))]
          @ (if EncodeFails e
             then [http_Error ''Internal Server Error'' StatusInternalServerError] else []),
          s))"

text \<open>\<^verbatim>\<open>createRequest\<close>, lines 120-150.\<close>

definition createRequest :: "Request Handler" where
  "createRequest e r s =
     (case Body r of
        Inl err \<Rightarrow> ([http_Error (''Invalid request body: '' @ err) StatusBadRequest], s)
      | Inr newRequest \<Rightarrow>
          if GigTitle newRequest = '''' \<or> Client newRequest = ''''
             \<or> ClientEmail newRequest = '''' \<or> SupplierEmail newRequest = ''''
          then ([http_Error
                   ''Missing required fields (gig_title, client, client_email, supplier_email)''
                   StatusBadRequest], s)
          else
            let newRequest = newRequest\<lparr>ID := nextID s\<rparr>;
                newRequest = newRequest\<lparr>CreatedAt := Now e\<rparr>;
                s = s\<lparr>requests := append_slice (requests s) newRequest\<rparr>;
                s = s\<lparr>nextID := nextID s + 1\<rparr>
            in ([Header_Set ''Content-Type'' ''application/json'', WriteHeader StatusCreated,
                 Encode_Request newRequest], s))"

definition RequestsHandler :: "Request Handler" where
  "RequestsHandler e r s =
     (if Method r = ''GET'' then listRequests e r s
      else if Method r = ''POST'' then createRequest e r s
      else ([http_Error ''Method not allowed'' StatusMethodNotAllowed], s))"

section \<open>Shared by both variants\<close>

text \<open>\<^verbatim>\<open>CORSHandler\<close>: three headers, then either the answer to OPTIONS or the wrapped handler.\<close>

definition CORSHandler :: "'r Handler \<Rightarrow> 'r Handler" where
  "CORSHandler next e r s =
     (let hs = [Header_Set ''Access-Control-Allow-Origin'' ''*'',
                Header_Set ''Access-Control-Allow-Methods'' ''GET, POST, OPTIONS'',
                Header_Set ''Access-Control-Allow-Headers'' ''Content-Type'']
      in if Method r = ''OPTIONS'' then (hs @ [WriteHeader StatusOK], s)
         else (case next e r s of (cs, s') \<Rightarrow> (hs @ cs, s')))"

text \<open>
  The server: the handler registered by \<^verbatim>\<open>main\<close> for \<^verbatim>\<open>/requests\<close>, applied to the
  requests in the order of their critical sections, from a given store. The result
  is the calls of each request and the final store.
\<close>

fun serve :: "'r Handler \<Rightarrow> 'r Store \<Rightarrow> (Env \<times> 'r http_Request) list
              \<Rightarrow> 'r Call list list \<times> 'r Store" where
  "serve h s [] = ([], s)"
| "serve h s ((e, r) # rest) =
     (case h e r s of (cs, s') \<Rightarrow>
        (case serve h s' rest of (css, s'') \<Rightarrow> (cs # css, s'')))"

section \<open>What a response shows\<close>

text \<open>
  A request was a successful creation when its handler wrote the status 201, which
  only the last branch of \<^verbatim>\<open>createRequest\<close> does. \<open>listed\<close> is the sequence of records a
  response hands to the encoder as a list, \<open>echoed\<close> the single records it hands over.
\<close>

definition created :: "'r Call list \<Rightarrow> bool" where
  "created cs = (WriteHeader StatusCreated \<in> set cs)"

fun listed :: "'r Call list \<Rightarrow> 'r list" where
  "listed [] = []"
| "listed (Encode_Requests sl # cs) = elems sl @ listed cs"
| "listed (c # cs) = listed cs"

fun echoed :: "'r Call list \<Rightarrow> 'r list" where
  "echoed [] = []"
| "echoed (Encode_Request x # cs) = x # echoed cs"
| "echoed (c # cs) = echoed cs"

text \<open>
  The status codes a response asks for, in order: the codes of its \<^verbatim>\<open>WriteHeader\<close> and
  \<^verbatim>\<open>http.Error\<close> calls. The first one is the status the client receives.
\<close>

fun statuses :: "'r Call list \<Rightarrow> nat list" where
  "statuses [] = []"
| "statuses (WriteHeader code # cs) = code # statuses cs"
| "statuses (http_Error msg code # cs) = code # statuses cs"
| "statuses (c # cs) = statuses cs"

section \<open>Concrete requests\<close>

text \<open>
  The inputs of the spec's scenarios: a clock reading with a working encoder, a POST
  with a decoded body, a GET with a query, and some payloads. \<open>web_shop\<close> arrives with
  an id and a creation time of the caller's; \<open>untitled\<close> has an empty title and
  \<open>blank_title\<close> a title of three spaces.
\<close>

definition at :: "int \<Rightarrow> Env" where
  "at t = \<lparr>Now = Instant t, EncodeFails = False\<rparr>"

definition POST :: "'r \<Rightarrow> 'r http_Request" where
  "POST p = \<lparr>Method = ''POST'', Query = [], Body = Inr p\<rparr>"

definition GET :: "Values \<Rightarrow> 'r http_Request" where
  "GET q = \<lparr>Method = ''GET'', Query = q, Body = Inl ''EOF''\<rparr>"

definition logo_design :: Request where
  "logo_design = \<lparr>ID = 0, GigTitle = ''Logo Design'', Client = ''Acme'',
     ClientEmail = ''a@acme.com'', SupplierEmail = ''s1@x.com'', Details = '''',
     CreatedAt = Instant 0\<rparr>"

definition web_shop :: Request where
  "web_shop = \<lparr>ID = 99, GigTitle = ''Web Shop'', Client = ''Bolt'',
     ClientEmail = ''b@bolt.com'', SupplierEmail = ''s2@x.com'', Details = ''urgent'',
     CreatedAt = Instant 5\<rparr>"

definition untitled :: Request where
  "untitled = \<lparr>ID = 0, GigTitle = '''', Client = ''Acme'',
     ClientEmail = ''a@acme.com'', SupplierEmail = ''s1@x.com'', Details = '''',
     CreatedAt = Instant 0\<rparr>"

definition blank_title :: Request where
  "blank_title = \<lparr>ID = 0, GigTitle = ''   '', Client = ''Acme'',
     ClientEmail = ''a@acme.com'', SupplierEmail = ''s1@x.com'', Details = '''',
     CreatedAt = Instant 0\<rparr>"

definition logo_design_main :: Request_main where
  "logo_design_main = \<lparr>Request_main.ID = 0, Request_main.GigTitle = ''Logo Design'', Request_main.Client = ''Acme'',
     Email = ''a@acme.com'', Request_main.Details = '''', Request_main.CreatedAt = Instant 0\<rparr>"

definition web_shop_main :: Request_main where
  "web_shop_main = \<lparr>Request_main.ID = 99, Request_main.GigTitle = ''Web Shop'', Request_main.Client = ''Bolt'',
     Email = ''b@bolt.com'', Request_main.Details = ''urgent'', Request_main.CreatedAt = Instant 5\<rparr>"

definition untitled_main :: Request_main where
  "untitled_main = \<lparr>Request_main.ID = 0, Request_main.GigTitle = '''', Request_main.Client = ''Acme'',
     Email = ''a@acme.com'', Request_main.Details = '''', Request_main.CreatedAt = Instant 0\<rparr>"

definition blank_title_main :: Request_main where
  "blank_title_main = \<lparr>Request_main.ID = 0, Request_main.GigTitle = ''   '', Request_main.Client = ''Acme'',
     Email = ''a@acme.com'', Request_main.Details = '''', Request_main.CreatedAt = Instant 0\<rparr>"

text \<open>The store after \<open>logo_design\<close> was created at time 10 and \<open>web_shop\<close> at time 40.\<close>

definition two_records :: "Request Store" where
  "two_records = \<lparr>requests = Slice [logo_design\<lparr>ID := 1, CreatedAt := Instant 10\<rparr>,
      web_shop\<lparr>ID := 2, CreatedAt := Instant 40\<rparr>], nextID = 3\<rparr>"

lemmas run_defs = CORSHandler_def RequestsHandler_def createRequest_def listRequests_def
  filteredRequests_def Values_Get_def created_def len_def init_store_def at_def POST_def GET_def
  logo_design_def web_shop_def untitled_def blank_title_def two_records_def Let_def

lemmas run_defs_main = CORSHandler_def RequestsHandler_main_def createRequest_main_def
  listRequests_main_def created_def len_def init_store_def at_def POST_def GET_def
  logo_design_main_def web_shop_main_def untitled_main_def blank_title_main_def Let_def

section \<open>Slices and the filtering loop\<close>

lemma elems_append_slice: "elems (append_slice sl x) = elems sl @ [x]"
  by (cases sl) simp_all

lemma len_append_slice: "len (append_slice sl x) = Suc (len sl)"
  by (simp add: len_def elems_append_slice)

lemma elems_range_requests:
  "elems (range_requests F xs acc) = elems acc @ filter (\<lambda>R. SupplierEmail R = F) xs"
  by (induction xs arbitrary: acc) (simp_all add: elems_append_slice)

lemma elems_filteredRequests:
  "elems (filteredRequests F reqs) =
     (if F = '''' then elems reqs else filter (\<lambda>R. SupplierEmail R = F) (elems reqs))"
  by (simp add: filteredRequests_def elems_range_requests)

lemma listed_append: "listed (cs @ ds) = listed cs @ listed ds"
  by (induction cs rule: listed.induct) simp_all

lemma echoed_append: "echoed (cs @ ds) = echoed cs @ echoed ds"
  by (induction cs rule: echoed.induct) simp_all

lemma listed_listRequests:
  "listed (fst (listRequests e r s)) =
     elems (filteredRequests (Values_Get (Query r) ''supplier_email'') (requests s))"
  by (simp add: listRequests_def Let_def)

lemma listed_listRequests_main: "listed (fst (listRequests_main e r s)) = elems (requests s)"
  by (simp add: listRequests_main_def)

section \<open>One request changes the store by at most one record\<close>

lemma createRequest_step:
  assumes "createRequest e r s = (cs, s')"
  shows "(\<not> created cs \<and> echoed cs = [] \<and> s' = s) \<or>
         (\<exists>p. created cs \<and> Body r = Inr p \<and>
              echoed cs = [p\<lparr>ID := nextID s, CreatedAt := Now e\<rparr>] \<and>
              requests s' = append_slice (requests s) (p\<lparr>ID := nextID s, CreatedAt := Now e\<rparr>) \<and>
              nextID s' = nextID s + 1)"
  using assms
  by (auto simp: createRequest_def created_def Let_def split: sum.splits if_splits)

lemma listRequests_step:
  assumes "listRequests e r s = (cs, s')"
  shows "\<not> created cs \<and> echoed cs = [] \<and> s' = s"
  using assms by (auto simp: listRequests_def created_def Let_def)

lemma RequestsHandler_step:
  assumes "RequestsHandler e r s = (cs, s')"
  shows "(\<not> created cs \<and> echoed cs = [] \<and> s' = s) \<or>
         (\<exists>p. created cs \<and> Body r = Inr p \<and>
              echoed cs = [p\<lparr>ID := nextID s, CreatedAt := Now e\<rparr>] \<and>
              requests s' = append_slice (requests s) (p\<lparr>ID := nextID s, CreatedAt := Now e\<rparr>) \<and>
              nextID s' = nextID s + 1)"
proof (cases "Method r = ''GET''")
  case True
  with assms have "listRequests e r s = (cs, s')" by (simp add: RequestsHandler_def)
  then show ?thesis using listRequests_step by blast
next
  case get: False
  show ?thesis
  proof (cases "Method r = ''POST''")
    case True
    with get assms have "createRequest e r s = (cs, s')" by (simp add: RequestsHandler_def)
    then show ?thesis by (rule createRequest_step)
  next
    case False
    with get assms show ?thesis by (auto simp: RequestsHandler_def created_def)
  qed
qed

lemma created_CORS_prefix:
  "created ([Header_Set a b, Header_Set c d, Header_Set f g] @ cs) = created cs"
  by (simp add: created_def)

lemma echoed_CORS_prefix:
  "echoed ([Header_Set a b, Header_Set c d, Header_Set f g] @ cs) = echoed cs"
  by simp

lemma CORS_RequestsHandler_step:
  assumes "CORSHandler RequestsHandler e r s = (cs, s')"
  shows "(\<not> created cs \<and> echoed cs = [] \<and> s' = s) \<or>
         (\<exists>p. created cs \<and> Body r = Inr p \<and>
              echoed cs = [p\<lparr>ID := nextID s, CreatedAt := Now e\<rparr>] \<and>
              requests s' = append_slice (requests s) (p\<lparr>ID := nextID s, CreatedAt := Now e\<rparr>) \<and>
              nextID s' = nextID s + 1)"
proof (cases "Method r = ''OPTIONS''")
  case True
  with assms show ?thesis by (auto simp: CORSHandler_def created_def)
next
  case False
  obtain ds t where inner: "RequestsHandler e r s = (ds, t)" by (cases "RequestsHandler e r s")
  with False assms have cs: "cs = [Header_Set ''Access-Control-Allow-Origin'' ''*'',
      Header_Set ''Access-Control-Allow-Methods'' ''GET, POST, OPTIONS'',
      Header_Set ''Access-Control-Allow-Headers'' ''Content-Type''] @ ds" and t: "s' = t"
    by (simp_all add: CORSHandler_def)
  from RequestsHandler_step [OF inner] show ?thesis
    unfolding cs t created_CORS_prefix echoed_CORS_prefix .
qed

text \<open>
  A run of any handler with that step behaviour: the store grows by the echoed
  records, in order, the counter by their number, and their ids are consecutive from
  the counter's first value. \<open>idf\<close> reads the id of a record.
\<close>

lemma serve_appends:
  assumes step: "\<And>e r s cs s'. h e r s = (cs, s') \<Longrightarrow>
      (\<not> created cs \<and> echoed cs = [] \<and> s' = s) \<or>
      (\<exists>x. created cs \<and> echoed cs = [x] \<and> idf x = nextID s \<and>
           requests s' = append_slice (requests s) x \<and> nextID s' = nextID s + 1)"
    and run: "serve h s rs = (css, s')"
  shows "elems (requests s') = elems (requests s) @ concat (map echoed css) \<and>
         nextID s' = nextID s + int (length (filter created css)) \<and>
         map idf (concat (map echoed css)) = [nextID s..nextID s' - 1]"
  using run
proof (induction rs arbitrary: s css s')
  case Nil
  then show ?case by simp
next
  case (Cons er rest)
  obtain e r where er: "er = (e, r)" by (cases er)
  obtain cs s1 where first: "h e r s = (cs, s1)" by (cases "h e r s")
  obtain css1 s2 where rest: "serve h s1 rest = (css1, s2)" by (cases "serve h s1 rest")
  from Cons.prems er first rest have css: "css = cs # css1" and s': "s' = s2" by simp_all
  from Cons.IH [OF rest]
  have ih1: "elems (requests s2) = elems (requests s1) @ concat (map echoed css1)"
    and ih2: "nextID s2 = nextID s1 + int (length (filter created css1))"
    and ih3: "map idf (concat (map echoed css1)) = [nextID s1..nextID s2 - 1]"
    by simp_all
  from step [OF first] show ?case
  proof
    assume "\<not> created cs \<and> echoed cs = [] \<and> s1 = s"
    with ih1 ih2 ih3 show ?thesis by (simp add: css s')
  next
    assume "\<exists>x. created cs \<and> echoed cs = [x] \<and> idf x = nextID s \<and>
           requests s1 = append_slice (requests s) x \<and> nextID s1 = nextID s + 1"
    then obtain x where c: "created cs" and ex: "echoed cs = [x]" and ix: "idf x = nextID s"
      and rq: "requests s1 = append_slice (requests s) x" and nx: "nextID s1 = nextID s + 1"
      by blast
    have le: "nextID s \<le> nextID s2 - 1" using ih2 nx by simp
    have "elems (requests s2) = elems (requests s) @ concat (map echoed (cs # css1))"
      using ih1 rq ex by (simp add: elems_append_slice)
    moreover have "nextID s2 = nextID s + int (length (filter created (cs # css1)))"
      using ih2 nx c by simp
    moreover have "map idf (concat (map echoed (cs # css1))) = [nextID s..nextID s2 - 1]"
      using ih3 ex ix nx upto_rec1 [OF le] by simp
    ultimately show ?thesis by (simp add: css s')
  qed
qed

lemma CORS_RequestsHandler_appends:
  assumes "CORSHandler RequestsHandler e r s = (cs, s')"
  shows "(\<not> created cs \<and> echoed cs = [] \<and> s' = s) \<or>
      (\<exists>x. created cs \<and> echoed cs = [x] \<and> ID x = nextID s \<and>
           requests s' = append_slice (requests s) x \<and> nextID s' = nextID s + 1)"
  using CORS_RequestsHandler_step [OF assms] by auto

lemma serve_from_init:
  assumes "serve (CORSHandler RequestsHandler) init_store rs = (css, s)"
  shows "elems (requests s) = concat (map echoed css)"
    and "nextID s = int (length (filter created css)) + 1"
    and "map ID (elems (requests s)) = [1..int (length (filter created css))]"
proof -
  let ?h = "CORSHandler RequestsHandler"
  have "elems (requests s) = elems (requests (init_store :: Request Store)) @ concat (map echoed css) \<and>
        nextID s = nextID (init_store :: Request Store) + int (length (filter created css)) \<and>
        map ID (concat (map echoed css)) = [nextID (init_store :: Request Store)..nextID s - 1]"
  proof (rule serve_appends [of ?h ID])
    fix e r s cs s'
    assume "?h e r s = (cs, s')"
    then show "(\<not> created cs \<and> echoed cs = [] \<and> s' = s) \<or>
      (\<exists>x. created cs \<and> echoed cs = [x] \<and> ID x = nextID s \<and>
           requests s' = append_slice (requests s) x \<and> nextID s' = nextID s + 1)"
      by (rule CORS_RequestsHandler_appends)
  next
    show "serve ?h init_store rs = (css, s)" by (rule assms)
  qed
  then have a: "elems (requests s) = elems (requests (init_store :: Request Store)) @ concat (map echoed css)"
    and b: "nextID s = nextID (init_store :: Request Store) + int (length (filter created css))"
    and c: "map ID (concat (map echoed css)) = [nextID (init_store :: Request Store)..nextID s - 1]"
    by blast+
  show 1: "elems (requests s) = concat (map echoed css)" using a by (simp add: init_store_def)
  show 2: "nextID s = int (length (filter created css)) + 1" using b by (simp add: init_store_def)
  show "map ID (elems (requests s)) = [1..int (length (filter created css))]"
    using c 1 2 by (simp add: init_store_def)
qed

section \<open>The claims\<close>

text \<open>
  C1. After any sequence of requests served from the initial store, of which N were
  successful creations (the others rejected, listings, OPTIONS or refused methods),
  the ids of the stored records are 1, 2, ..., N in this order, so the record with
  id k is the k-th element, no id is missing or repeated, and the counter is N + 1.
  In one request the counter and the collection change together or not at all:
  after a successful creation the collection is one record longer and the counter
  one higher, after any other request the store is the same. Stated for the
  supplier-aware variant, from any store for the single step.
\<close>

theorem ids_are_one_to_N:
  "(case serve (CORSHandler RequestsHandler) init_store rs of (css, s) \<Rightarrow>
      map ID (elems (requests s)) = [1..int (length (filter created css))] \<and>
      set (map ID (elems (requests s))) = {1..int (length (filter created css))} \<and>
      distinct (map ID (elems (requests s))) \<and>
      len (requests s) = length (filter created css) \<and>
      nextID s = int (length (filter created css)) + 1) \<and>
   (case CORSHandler RequestsHandler e r st of (cs, s1) \<Rightarrow>
      if created cs
      then len (requests s1) = len (requests st) + 1 \<and> nextID s1 = nextID st + 1
      else s1 = st)"
proof
  obtain css s where run: "serve (CORSHandler RequestsHandler) init_store rs = (css, s)"
    by (cases "serve (CORSHandler RequestsHandler) init_store rs")
  let ?N = "length (filter created css)"
  have ids: "map ID (elems (requests s)) = [1..int ?N]" by (rule serve_from_init(3) [OF run])
  have "length (map ID (elems (requests s))) = ?N" unfolding ids by simp
  then have l: "len (requests s) = ?N" by (simp add: len_def)
  have st: "set (map ID (elems (requests s))) = {1..int ?N}" unfolding ids by simp
  have di: "distinct (map ID (elems (requests s)))" unfolding ids by simp
  have nx: "nextID s = int ?N + 1" by (rule serve_from_init(2) [OF run])
  show "case serve (CORSHandler RequestsHandler) init_store rs of (css, s) \<Rightarrow>
      map ID (elems (requests s)) = [1..int (length (filter created css))] \<and>
      set (map ID (elems (requests s))) = {1..int (length (filter created css))} \<and>
      distinct (map ID (elems (requests s))) \<and>
      len (requests s) = length (filter created css) \<and>
      nextID s = int (length (filter created css)) + 1"
    unfolding run prod.case using ids st di l nx by (intro conjI)
next
  obtain cs s1 where one: "CORSHandler RequestsHandler e r st = (cs, s1)"
    by (cases "CORSHandler RequestsHandler e r st")
  from CORS_RequestsHandler_step [OF one]
  show "case CORSHandler RequestsHandler e r st of (cs, s1) \<Rightarrow>
      if created cs
      then len (requests s1) = len (requests st) + 1 \<and> nextID s1 = nextID st + 1
      else s1 = st"
    by (auto simp: one len_append_slice)
qed

theorem ids_are_one_to_N_witness:
  "serve (CORSHandler RequestsHandler) init_store
      [(at 10, POST logo_design), (at 20, POST untitled), (at 30, GET []), (at 40, POST web_shop)]
   = ([[Header_Set ''Access-Control-Allow-Origin'' ''*'',
    Header_Set ''Access-Control-Allow-Methods'' ''GET, POST, OPTIONS'',
    Header_Set ''Access-Control-Allow-Headers'' ''Content-Type'',
    Header_Set ''Content-Type'' ''application/json'',
    WriteHeader StatusCreated,
    Encode_Request (logo_design\<lparr>ID := 1, CreatedAt := Instant 10\<rparr>)],
   [Header_Set ''Access-Control-Allow-Origin'' ''*'',
    Header_Set ''Access-Control-Allow-Methods'' ''GET, POST, OPTIONS'',
    Header_Set ''Access-Control-Allow-Headers'' ''Content-Type'',
    http_Error
     ''Missing required fields (gig_title, client, client_email, supplier_email)''
     StatusBadRequest],
   [Header_Set ''Access-Control-Allow-Origin'' ''*'',
    Header_Set ''Access-Control-Allow-Methods'' ''GET, POST, OPTIONS'',
    Header_Set ''Access-Control-Allow-Headers'' ''Content-Type'',
    Header_Set ''Content-Type'' ''application/json'', WriteHeader StatusOK,
    Encode_Requests (Slice [logo_design\<lparr>ID := 1, CreatedAt := Instant 10\<rparr>])],
   [Header_Set ''Access-Control-Allow-Origin'' ''*'',
    Header_Set ''Access-Control-Allow-Methods'' ''GET, POST, OPTIONS'',
    Header_Set ''Access-Control-Allow-Headers'' ''Content-Type'',
    Header_Set ''Content-Type'' ''application/json'',
    WriteHeader StatusCreated,
    Encode_Request (web_shop\<lparr>ID := 2, CreatedAt := Instant 40\<rparr>)]], two_records)
  \<and> map ID (elems (requests two_records)) = [1, 2] \<and> nextID two_records = 2 + 1"
  using ids_are_one_to_N [where rs = "[(at 10, POST logo_design), (at 20, POST untitled), (at 30, GET []), (at 40, POST web_shop)]" and e = "at 10" and r = "POST logo_design" and st = init_store]
  by (simp add: run_defs)

text \<open>
  C2. In the supplier-aware listing, when the query's \<^verbatim>\<open>supplier_email\<close> is a non-empty
  string F, a record R is in the listed sequence if and only if R is stored and its
  \<^verbatim>\<open>SupplierEmail\<close> equals F; the comparison is equality of the two byte strings, with
  no folding of case and no trimming. When the parameter is empty or absent
  (\<^verbatim>\<open>Get\<close> returns the empty string for both), the listing is the whole collection.
\<close>

theorem filter_is_exact_equality:
  "(Values_Get (Query r) ''supplier_email'' = F \<and> F \<noteq> '''' \<longrightarrow>
      (R \<in> set (listed (fst (listRequests e r s))) \<longleftrightarrow>
         R \<in> set (elems (requests s)) \<and> SupplierEmail R = F)) \<and>
   (Values_Get (Query r) ''supplier_email'' = '''' \<longrightarrow>
      listed (fst (listRequests e r s)) = elems (requests s) \<and>
      filteredRequests '''' (requests s) = requests s)"
  by (simp add: listed_listRequests elems_filteredRequests) (simp add: filteredRequests_def)

theorem filter_is_exact_equality_witness:
  "Values_Get (Query (GET [(''supplier_email'', [''s1@x.com''])])) ''supplier_email'' = ''s1@x.com'' \<and>
   ''s1@x.com'' \<noteq> '''' \<and>
   listed (fst (listRequests (at 50) (GET [(''supplier_email'', [''s1@x.com''])]) two_records))
     = [logo_design\<lparr>ID := 1, CreatedAt := Instant 10\<rparr>] \<and>
   SupplierEmail (logo_design\<lparr>ID := 1, CreatedAt := Instant 10\<rparr>) = ''s1@x.com'' \<and>
   listed (fst (listRequests (at 50) (GET [(''supplier_email'', [''S1@X.COM''])]) two_records)) = [] \<and>
   listed (fst (listRequests (at 50) (GET [(''supplier_email'', [''s1@x.com ''])]) two_records)) = [] \<and>
   listed (fst (listRequests (at 50) (GET [(''supplier_email'', [''''])]) two_records))
     = elems (requests two_records) \<and>
   listed (fst (listRequests (at 50) (GET []) two_records)) = elems (requests two_records)"
  using filter_is_exact_equality [where r = "GET [(''supplier_email'', [''s1@x.com''])]"
      and F = "''s1@x.com''" and R = "logo_design\<lparr>ID := 1, CreatedAt := Instant 10\<rparr>"
      and e = "at 50" and s = two_records]
  by (simp add: run_defs)

text \<open>
  C3. After any sequence of requests served from the initial store, the collection is
  the sequence of the records echoed to their creators, in the order in which the
  creations were served, and its ids ascend. A listing without a filter is that
  collection in that order; a listing with a filter is the sequence of its records
  whose \<^verbatim>\<open>SupplierEmail\<close> equals the filter, a subsequence of the collection in the
  same order, so its ids ascend too.
\<close>

theorem listing_keeps_creation_order:
  "case serve (CORSHandler RequestsHandler) init_store rs of (css, s) \<Rightarrow>
     elems (requests s) = concat (map echoed css) \<and>
     sorted_wrt (<) (map ID (elems (requests s))) \<and>
     listed (fst (listRequests e r s)) =
       (if Values_Get (Query r) ''supplier_email'' = '''' then elems (requests s)
        else filter (\<lambda>R. SupplierEmail R = Values_Get (Query r) ''supplier_email'')
               (elems (requests s))) \<and>
     subseq (listed (fst (listRequests e r s))) (elems (requests s)) \<and>
     sorted_wrt (<) (map ID (listed (fst (listRequests e r s))))"
proof -
  obtain css s where run: "serve (CORSHandler RequestsHandler) init_store rs = (css, s)"
    by (cases "serve (CORSHandler RequestsHandler) init_store rs")
  let ?F = "Values_Get (Query r) ''supplier_email''"
  let ?out = "listed (fst (listRequests e r s))"
  have order: "elems (requests s) = concat (map echoed css)" by (rule serve_from_init(1) [OF run])
  have ids: "map ID (elems (requests s)) = [1..int (length (filter created css))]"
    by (rule serve_from_init(3) [OF run])
  have asc: "sorted_wrt (<) (map ID (elems (requests s)))"
    unfolding ids by (rule sorted_wrt_upto)
  have out: "?out = (if ?F = '''' then elems (requests s)
        else filter (\<lambda>R. SupplierEmail R = ?F) (elems (requests s)))"
    by (simp add: listed_listRequests elems_filteredRequests)
  have sub: "subseq ?out (elems (requests s))" unfolding out by simp
  have "sorted_wrt (<) (map ID ?out)"
    using asc unfolding out by (simp add: sorted_wrt_map sorted_wrt_filter)
  with order asc out sub show ?thesis unfolding run prod.case by (intro conjI)
qed

theorem listing_keeps_creation_order_witness:
  "listed (fst (listRequests (at 50) (GET [])
      (snd (serve (CORSHandler RequestsHandler) init_store
        [(at 10, POST logo_design), (at 20, POST untitled), (at 30, GET []),
         (at 40, POST web_shop)]))))
     = [logo_design\<lparr>ID := 1, CreatedAt := Instant 10\<rparr>,
        web_shop\<lparr>ID := 2, CreatedAt := Instant 40\<rparr>] \<and>
   concat (map echoed (fst (serve (CORSHandler RequestsHandler) init_store
        [(at 10, POST logo_design), (at 20, POST untitled), (at 30, GET []),
         (at 40, POST web_shop)])))
     = [logo_design\<lparr>ID := 1, CreatedAt := Instant 10\<rparr>,
        web_shop\<lparr>ID := 2, CreatedAt := Instant 40\<rparr>] \<and>
   listed (fst (listRequests (at 50) (GET [(''supplier_email'', [''s2@x.com''])])
      (snd (serve (CORSHandler RequestsHandler) init_store
        [(at 10, POST logo_design), (at 20, POST untitled), (at 30, GET []),
         (at 40, POST web_shop)]))))
     = [web_shop\<lparr>ID := 2, CreatedAt := Instant 40\<rparr>]"
  using listing_keeps_creation_order [where rs = "[(at 10, POST logo_design),
      (at 20, POST untitled), (at 30, GET []), (at 40, POST web_shop)]"
      and e = "at 50" and r = "GET []"]
  by (simp add: run_defs)

text \<open>
  C4. The claim says that a mandatory field made of whitespace only is rejected. The
  validation of both variants compares each mandatory field with the empty string by
  \<^verbatim>\<open>==\<close> and trims nothing, so a payload whose title is three spaces is accepted and
  stored (the second theorem below). What holds instead: a decoded payload is rejected
  with the message about missing fields exactly when one of its mandatory fields
  (title, client, client email and, in the supplier-aware variant, supplier email) is
  the empty string, and it is created exactly when none of them is.
\<close>

theorem validation_rejects_exactly_empty_fields:
  "(Body r = Inr p \<longrightarrow>
      (createRequest e r s =
         ([http_Error ''Missing required fields (gig_title, client, client_email, supplier_email)''
             StatusBadRequest], s)
       \<longleftrightarrow> GigTitle p = '''' \<or> Client p = '''' \<or> ClientEmail p = '''' \<or> SupplierEmail p = '''') \<and>
      (created (fst (createRequest e r s))
       \<longleftrightarrow> GigTitle p \<noteq> '''' \<and> Client p \<noteq> '''' \<and> ClientEmail p \<noteq> '''' \<and> SupplierEmail p \<noteq> '''')) \<and>
   (Body r' = Inr q \<longrightarrow>
      (createRequest_main e r' s' =
         ([http_Error ''Missing required fields (gig_title, client, email)'' StatusBadRequest], s')
       \<longleftrightarrow> Request_main.GigTitle q = '''' \<or> Request_main.Client q = '''' \<or> Email q = '''') \<and>
      (created (fst (createRequest_main e r' s'))
       \<longleftrightarrow> Request_main.GigTitle q \<noteq> '''' \<and> Request_main.Client q \<noteq> '''' \<and> Email q \<noteq> ''''))"
  by (simp add: createRequest_def createRequest_main_def created_def Let_def)

theorem validation_rejects_exactly_empty_fields_witness:
  "Body (POST untitled) = Inr untitled \<and> GigTitle untitled = '''' \<and>
   createRequest (at 20) (POST untitled) two_records =
     ([http_Error ''Missing required fields (gig_title, client, client_email, supplier_email)''
         StatusBadRequest], two_records) \<and>
   \<not> created (fst (createRequest (at 20) (POST untitled) two_records)) \<and>
   Body (POST untitled_main) = Inr untitled_main \<and> Request_main.GigTitle untitled_main = '''' \<and>
   createRequest_main (at 20) (POST untitled_main) init_store =
     ([http_Error ''Missing required fields (gig_title, client, email)'' StatusBadRequest],
      init_store) \<and>
   \<not> created (fst (createRequest_main (at 20) (POST untitled_main) init_store))"
  using validation_rejects_exactly_empty_fields [where r = "POST untitled" and p = untitled
      and e = "at 20" and s = two_records and r' = "POST untitled_main" and q = untitled_main
      and s' = init_store]
  by (simp add: run_defs run_defs_main)

text \<open>
  The title of \<open>blank_title\<close> is nothing but spaces, and the payload is created in both
  variants.
\<close>

theorem blank_title_is_accepted:
  "removeAll (CHR '' '') (GigTitle blank_title) = '''' \<and>
   createRequest (at 10) (POST blank_title) init_store =
     ([Header_Set ''Content-Type'' ''application/json'', WriteHeader StatusCreated,
       Encode_Request (blank_title\<lparr>ID := 1, CreatedAt := Instant 10\<rparr>)],
      \<lparr>requests = Slice [blank_title\<lparr>ID := 1, CreatedAt := Instant 10\<rparr>], nextID = 2\<rparr>) \<and>
   removeAll (CHR '' '') (Request_main.GigTitle blank_title_main) = '''' \<and>
   createRequest_main (at 10) (POST blank_title_main) init_store =
     ([Header_Set ''Content-Type'' ''application/json'', WriteHeader StatusCreated,
       Encode_Request
         (blank_title_main\<lparr>Request_main.ID := 1, Request_main.CreatedAt := Instant 10\<rparr>)],
      \<lparr>requests = Slice
           [blank_title_main\<lparr>Request_main.ID := 1, Request_main.CreatedAt := Instant 10\<rparr>],
         nextID = 2\<rparr>)"
  by (simp add: run_defs run_defs_main)



text \<open>
  C5. A decoded payload with an empty mandatory field is answered with status 400 and
  the fixed message that lists the names of all mandatory fields, those that are
  missing among them; the handler returns the store it was given, collection and
  counter alike, also when it is reached through \<^verbatim>\<open>CORSHandler\<close> and
  \<^verbatim>\<open>RequestsHandler\<close>. Both variants.
\<close>

theorem rejected_payload_leaves_no_trace:
  "(Body r = Inr p \<and>
    (GigTitle p = '''' \<or> Client p = '''' \<or> ClientEmail p = '''' \<or> SupplierEmail p = '''') \<longrightarrow>
      createRequest e r s =
        ([http_Error ''Missing required fields (gig_title, client, client_email, supplier_email)''
            StatusBadRequest], s) \<and>
      (Method r = ''POST'' \<longrightarrow>
         snd (CORSHandler RequestsHandler e r s) = s \<and>
         statuses (fst (CORSHandler RequestsHandler e r s)) = [StatusBadRequest])) \<and>
   sublist ''gig_title''
     ''Missing required fields (gig_title, client, client_email, supplier_email)'' \<and>
   sublist ''client''
     ''Missing required fields (gig_title, client, client_email, supplier_email)'' \<and>
   sublist ''client_email''
     ''Missing required fields (gig_title, client, client_email, supplier_email)'' \<and>
   sublist ''supplier_email''
     ''Missing required fields (gig_title, client, client_email, supplier_email)'' \<and>
   (Body r' = Inr q \<and>
    (Request_main.GigTitle q = '''' \<or> Request_main.Client q = '''' \<or> Email q = '''') \<longrightarrow>
      createRequest_main e r' s' =
        ([http_Error ''Missing required fields (gig_title, client, email)'' StatusBadRequest], s') \<and>
      (Method r' = ''POST'' \<longrightarrow>
         snd (CORSHandler RequestsHandler_main e r' s') = s' \<and>
         statuses (fst (CORSHandler RequestsHandler_main e r' s')) = [StatusBadRequest])) \<and>
   sublist ''gig_title'' ''Missing required fields (gig_title, client, email)'' \<and>
   sublist ''client'' ''Missing required fields (gig_title, client, email)'' \<and>
   sublist ''email'' ''Missing required fields (gig_title, client, email)''"
proof -
  have a: "Body r = Inr p \<and>
    (GigTitle p = '''' \<or> Client p = '''' \<or> ClientEmail p = '''' \<or> SupplierEmail p = '''') \<longrightarrow>
      createRequest e r s =
        ([http_Error ''Missing required fields (gig_title, client, client_email, supplier_email)''
            StatusBadRequest], s) \<and>
      (Method r = ''POST'' \<longrightarrow>
         snd (CORSHandler RequestsHandler e r s) = s \<and>
         statuses (fst (CORSHandler RequestsHandler e r s)) = [StatusBadRequest])"
    by (auto simp: createRequest_def CORSHandler_def RequestsHandler_def)
  have b: "Body r' = Inr q \<and>
    (Request_main.GigTitle q = '''' \<or> Request_main.Client q = '''' \<or> Email q = '''') \<longrightarrow>
      createRequest_main e r' s' =
        ([http_Error ''Missing required fields (gig_title, client, email)'' StatusBadRequest], s') \<and>
      (Method r' = ''POST'' \<longrightarrow>
         snd (CORSHandler RequestsHandler_main e r' s') = s' \<and>
         statuses (fst (CORSHandler RequestsHandler_main e r' s')) = [StatusBadRequest])"
    by (auto simp: createRequest_main_def CORSHandler_def RequestsHandler_main_def)
  have n1: "sublist ''gig_title''
     ''Missing required fields (gig_title, client, client_email, supplier_email)''" by code_simp
  have n2: "sublist ''client''
     ''Missing required fields (gig_title, client, client_email, supplier_email)''" by code_simp
  have n3: "sublist ''client_email''
     ''Missing required fields (gig_title, client, client_email, supplier_email)''" by code_simp
  have n4: "sublist ''supplier_email''
     ''Missing required fields (gig_title, client, client_email, supplier_email)''" by code_simp
  have m1: "sublist ''gig_title'' ''Missing required fields (gig_title, client, email)''"
    by code_simp
  have m2: "sublist ''client'' ''Missing required fields (gig_title, client, email)''"
    by code_simp
  have m3: "sublist ''email'' ''Missing required fields (gig_title, client, email)''"
    by code_simp
  from a b n1 n2 n3 n4 m1 m2 m3 show ?thesis by (intro conjI)
qed

theorem rejected_payload_leaves_no_trace_witness:
  "Body (POST untitled) = Inr untitled \<and> GigTitle untitled = '''' \<and>
   Method (POST untitled :: Request http_Request) = ''POST'' \<and>
   CORSHandler RequestsHandler (at 20) (POST untitled) two_records =
     ([Header_Set ''Access-Control-Allow-Origin'' ''*'',
       Header_Set ''Access-Control-Allow-Methods'' ''GET, POST, OPTIONS'',
       Header_Set ''Access-Control-Allow-Headers'' ''Content-Type'',
       http_Error ''Missing required fields (gig_title, client, client_email, supplier_email)''
         StatusBadRequest], two_records) \<and>
   listed (fst (listRequests (at 30) (GET [])
       (snd (CORSHandler RequestsHandler (at 20) (POST untitled) two_records))))
     = elems (requests two_records) \<and>
   Body (POST untitled_main) = Inr untitled_main \<and>
   Request_main.GigTitle untitled_main = '''' \<and>
   Method (POST untitled_main :: Request_main http_Request) = ''POST'' \<and>
   CORSHandler RequestsHandler_main (at 20) (POST untitled_main) init_store =
     ([Header_Set ''Access-Control-Allow-Origin'' ''*'',
       Header_Set ''Access-Control-Allow-Methods'' ''GET, POST, OPTIONS'',
       Header_Set ''Access-Control-Allow-Headers'' ''Content-Type'',
       http_Error ''Missing required fields (gig_title, client, email)'' StatusBadRequest],
      init_store)"
  using rejected_payload_leaves_no_trace [where r = "POST untitled" and p = untitled
      and e = "at 20" and s = two_records and r' = "POST untitled_main" and q = untitled_main
      and s' = init_store]
  by (simp add: run_defs run_defs_main)


text \<open>
  C6. A decoded payload whose mandatory fields are all non-empty is answered with
  status 201 and the record that is the payload with \<^verbatim>\<open>ID\<close> set to the counter and
  \<^verbatim>\<open>CreatedAt\<close> set to the clock reading, whatever the payload held in these two
  fields; every other field is the payload's. The same record is appended to the
  collection, and the counter is incremented. Both variants.
\<close>

theorem created_record_echoes_payload:
  "(Body r = Inr p \<and> GigTitle p \<noteq> '''' \<and> Client p \<noteq> '''' \<and> ClientEmail p \<noteq> '''' \<and>
    SupplierEmail p \<noteq> '''' \<longrightarrow>
      createRequest e r s =
        ([Header_Set ''Content-Type'' ''application/json'', WriteHeader StatusCreated,
          Encode_Request (p\<lparr>ID := nextID s, CreatedAt := Now e\<rparr>)],
         \<lparr>requests = append_slice (requests s) (p\<lparr>ID := nextID s, CreatedAt := Now e\<rparr>),
            nextID = nextID s + 1\<rparr>) \<and>
      elems (requests (snd (createRequest e r s)))
        = elems (requests s) @ [p\<lparr>ID := nextID s, CreatedAt := Now e\<rparr>] \<and>
      p\<lparr>ID := nextID s, CreatedAt := Now e\<rparr> =
        \<lparr>ID = nextID s, GigTitle = GigTitle p, Client = Client p, ClientEmail = ClientEmail p,
           SupplierEmail = SupplierEmail p, Details = Details p, CreatedAt = Now e\<rparr>) \<and>
   (Body r' = Inr q \<and> Request_main.GigTitle q \<noteq> '''' \<and> Request_main.Client q \<noteq> '''' \<and>
    Email q \<noteq> '''' \<longrightarrow>
      createRequest_main e r' s' =
        ([Header_Set ''Content-Type'' ''application/json'', WriteHeader StatusCreated,
          Encode_Request (q\<lparr>Request_main.ID := nextID s', Request_main.CreatedAt := Now e\<rparr>)],
         \<lparr>requests = append_slice (requests s')
              (q\<lparr>Request_main.ID := nextID s', Request_main.CreatedAt := Now e\<rparr>),
            nextID = nextID s' + 1\<rparr>) \<and>
      elems (requests (snd (createRequest_main e r' s')))
        = elems (requests s')
          @ [q\<lparr>Request_main.ID := nextID s', Request_main.CreatedAt := Now e\<rparr>] \<and>
      q\<lparr>Request_main.ID := nextID s', Request_main.CreatedAt := Now e\<rparr> =
        \<lparr>Request_main.ID = nextID s', Request_main.GigTitle = Request_main.GigTitle q,
           Request_main.Client = Request_main.Client q, Email = Email q,
           Request_main.Details = Request_main.Details q, Request_main.CreatedAt = Now e\<rparr>)"
  by (simp add: createRequest_def createRequest_main_def Let_def elems_append_slice)

theorem created_record_echoes_payload_witness:
  "Body (POST web_shop) = Inr web_shop \<and> GigTitle web_shop \<noteq> '''' \<and> Client web_shop \<noteq> '''' \<and>
   ClientEmail web_shop \<noteq> '''' \<and> SupplierEmail web_shop \<noteq> '''' \<and>
   ID web_shop = 99 \<and> CreatedAt web_shop = Instant 5 \<and>
   createRequest (at 40) (POST web_shop) init_store =
     ([Header_Set ''Content-Type'' ''application/json'', WriteHeader StatusCreated,
       Encode_Request \<lparr>ID = 1, GigTitle = ''Web Shop'', Client = ''Bolt'',
         ClientEmail = ''b@bolt.com'', SupplierEmail = ''s2@x.com'', Details = ''urgent'',
         CreatedAt = Instant 40\<rparr>],
      \<lparr>requests = Slice [\<lparr>ID = 1, GigTitle = ''Web Shop'', Client = ''Bolt'',
         ClientEmail = ''b@bolt.com'', SupplierEmail = ''s2@x.com'', Details = ''urgent'',
         CreatedAt = Instant 40\<rparr>], nextID = 2\<rparr>) \<and>
   Body (POST web_shop_main) = Inr web_shop_main \<and>
   Request_main.GigTitle web_shop_main \<noteq> '''' \<and> Request_main.Client web_shop_main \<noteq> '''' \<and>
   Email web_shop_main \<noteq> '''' \<and>
   createRequest_main (at 40) (POST web_shop_main) init_store =
     ([Header_Set ''Content-Type'' ''application/json'', WriteHeader StatusCreated,
       Encode_Request \<lparr>Request_main.ID = 1, Request_main.GigTitle = ''Web Shop'',
         Request_main.Client = ''Bolt'', Email = ''b@bolt.com'',
         Request_main.Details = ''urgent'', Request_main.CreatedAt = Instant 40\<rparr>],
      \<lparr>requests = Slice [\<lparr>Request_main.ID = 1, Request_main.GigTitle = ''Web Shop'',
         Request_main.Client = ''Bolt'', Email = ''b@bolt.com'',
         Request_main.Details = ''urgent'', Request_main.CreatedAt = Instant 40\<rparr>],
         nextID = 2\<rparr>)"
  using created_record_echoes_payload [where r = "POST web_shop" and p = web_shop
      and e = "at 40" and s = init_store and r' = "POST web_shop_main" and q = web_shop_main
      and s' = init_store]
  by (simp add: run_defs run_defs_main)

text \<open>
  C8. A listing of a store without records, with or without a filter, and a listing
  whose non-empty filter equals the \<^verbatim>\<open>SupplierEmail\<close> of no stored record, hands a slice
  of length 0 to the encoder under status 200 and leaves the store as it was. The
  slice is computed by a total function with no error value; the one error branch of
  the handler is the encoder reporting a failure, and 200 is the first status also
  then. (With a filter the empty slice is the nil slice the loop started from,
  without one it is the store's own slice.) The single-email listing of an empty
  store behaves the same way.
\<close>

theorem listing_nothing_is_empty_not_failure:
  "(elems (requests s) = [] \<or>
    (Values_Get (Query r) ''supplier_email'' \<noteq> '''' \<and>
     Values_Get (Query r) ''supplier_email'' \<notin> set (map SupplierEmail (elems (requests s)))) \<longrightarrow>
      listed (fst (listRequests e r s)) = [] \<and>
      len (filteredRequests (Values_Get (Query r) ''supplier_email'') (requests s)) = 0 \<and>
      hd (statuses (fst (listRequests e r s))) = StatusOK \<and>
      (\<not> EncodeFails e \<longrightarrow>
         fst (listRequests e r s) =
           [Header_Set ''Content-Type'' ''application/json'', WriteHeader StatusOK,
            Encode_Requests (filteredRequests (Values_Get (Query r) ''supplier_email'')
              (requests s))]) \<and>
      snd (listRequests e r s) = s) \<and>
   (elems (requests s') = [] \<longrightarrow>
      listed (fst (listRequests_main e r' s')) = [] \<and>
      hd (statuses (fst (listRequests_main e r' s'))) = StatusOK \<and>
      (\<not> EncodeFails e \<longrightarrow>
         fst (listRequests_main e r' s') =
           [Header_Set ''Content-Type'' ''application/json'', WriteHeader StatusOK,
            Encode_Requests (requests s')]) \<and>
      snd (listRequests_main e r' s') = s')"
proof -
  let ?F = "Values_Get (Query r) ''supplier_email''"
  have none: "?F \<notin> set (map SupplierEmail (elems (requests s))) \<Longrightarrow>
      filter (\<lambda>R. SupplierEmail R = ?F) (elems (requests s)) = []"
    by (auto simp: filter_empty_conv image_iff)
  have a: "elems (requests s) = [] \<or>
      (?F \<noteq> '''' \<and> ?F \<notin> set (map SupplierEmail (elems (requests s)))) \<Longrightarrow>
      elems (filteredRequests ?F (requests s)) = []"
    using none by (auto simp: elems_filteredRequests)
  have b: "hd (statuses (fst (listRequests e r s))) = StatusOK"
    by (simp add: listRequests_def Let_def)
  have c: "\<not> EncodeFails e \<Longrightarrow> fst (listRequests e r s) =
           [Header_Set ''Content-Type'' ''application/json'', WriteHeader StatusOK,
            Encode_Requests (filteredRequests ?F (requests s))]"
    by (simp add: listRequests_def Let_def)
  have d: "snd (listRequests e r s) = s" by (simp add: listRequests_def Let_def)
  have m: "elems (requests s') = [] \<longrightarrow>
      listed (fst (listRequests_main e r' s')) = [] \<and>
      hd (statuses (fst (listRequests_main e r' s'))) = StatusOK \<and>
      (\<not> EncodeFails e \<longrightarrow>
         fst (listRequests_main e r' s') =
           [Header_Set ''Content-Type'' ''application/json'', WriteHeader StatusOK,
            Encode_Requests (requests s')]) \<and>
      snd (listRequests_main e r' s') = s'"
    by (simp add: listRequests_main_def)
  from a b c d m show ?thesis by (simp add: listed_listRequests len_def)
qed

theorem listing_nothing_is_empty_not_failure_witness:
  "elems (requests (init_store :: Request Store)) = [] \<and>
   listRequests (at 5) (GET []) init_store =
     ([Header_Set ''Content-Type'' ''application/json'', WriteHeader StatusOK,
       Encode_Requests (Slice [])], init_store) \<and>
   listRequests (at 5) (GET [(''supplier_email'', [''s1@x.com''])]) init_store =
     ([Header_Set ''Content-Type'' ''application/json'', WriteHeader StatusOK,
       Encode_Requests nil], init_store) \<and>
   ''s3@x.com'' \<notin> set (map SupplierEmail (elems (requests two_records))) \<and>
   listRequests (at 50) (GET [(''supplier_email'', [''s3@x.com''])]) two_records =
     ([Header_Set ''Content-Type'' ''application/json'', WriteHeader StatusOK,
       Encode_Requests nil], two_records) \<and>
   elems (requests (init_store :: Request_main Store)) = [] \<and>
   listRequests_main (at 5) (GET []) init_store =
     ([Header_Set ''Content-Type'' ''application/json'', WriteHeader StatusOK,
       Encode_Requests (Slice [])], init_store)"
  using listing_nothing_is_empty_not_failure [where s = init_store and r = "GET []"
      and e = "at 5" and s' = init_store and r' = "GET []"]
    listing_nothing_is_empty_not_failure [where s = two_records
      and r = "GET [(''supplier_email'', [''s3@x.com''])]"
      and e = "at 50" and s' = init_store and r' = "GET []"]
  by (simp add: run_defs run_defs_main)


text \<open>
  C9. The single-email listing never reads the request: replacing the query, or the
  whole request, changes nothing, and the listed sequence is the whole collection.
  In the supplier-aware variant a listing is never longer than the collection, and
  with the filter \<^verbatim>\<open>s1@x.com\<close> on the store of two records it is strictly shorter.
\<close>

theorem main_listing_ignores_the_query:
  "listRequests_main e r s = listRequests_main e (r\<lparr>Query := q\<rparr>) s \<and>
   listRequests_main e r s = listRequests_main e r' s \<and>
   listed (fst (listRequests_main e r s)) = elems (requests s) \<and>
   (\<not> EncodeFails e \<longrightarrow>
      listRequests_main e r s =
        ([Header_Set ''Content-Type'' ''application/json'', WriteHeader StatusOK,
          Encode_Requests (requests s)], s)) \<and>
   length (listed (fst (listRequests e' r'' s''))) \<le> length (elems (requests s'')) \<and>
   length (listed (fst (listRequests (at 50) (GET [(''supplier_email'', [''s1@x.com''])])
      two_records))) < length (elems (requests two_records))"
proof -
  have a: "listRequests_main e r s = listRequests_main e (r\<lparr>Query := q\<rparr>) s"
    by (simp add: listRequests_main_def)
  have b: "listRequests_main e r s = listRequests_main e r' s"
    by (simp add: listRequests_main_def)
  have c: "listed (fst (listRequests_main e r s)) = elems (requests s)"
    by (rule listed_listRequests_main)
  have d: "\<not> EncodeFails e \<longrightarrow>
      listRequests_main e r s =
        ([Header_Set ''Content-Type'' ''application/json'', WriteHeader StatusOK,
          Encode_Requests (requests s)], s)"
    by (simp add: listRequests_main_def)
  have f: "length (listed (fst (listRequests e' r'' s''))) \<le> length (elems (requests s''))"
    by (simp add: listed_listRequests elems_filteredRequests)
  have g: "length (listed (fst (listRequests (at 50) (GET [(''supplier_email'', [''s1@x.com''])])
      two_records))) < length (elems (requests two_records))"
    by (simp add: run_defs)
  from a b c d f g show ?thesis by (intro conjI)
qed

theorem main_listing_ignores_the_query_witness:
  "\<not> EncodeFails (at 50) \<and>
   listRequests_main (at 50) (GET [(''supplier_email'', [''s1@x.com''])])
     \<lparr>requests = Slice [logo_design_main, web_shop_main], nextID = 3\<rparr> =
     ([Header_Set ''Content-Type'' ''application/json'', WriteHeader StatusOK,
       Encode_Requests (Slice [logo_design_main, web_shop_main])],
      \<lparr>requests = Slice [logo_design_main, web_shop_main], nextID = 3\<rparr>) \<and>
   listRequests_main (at 50) (GET [])
     \<lparr>requests = Slice [logo_design_main, web_shop_main], nextID = 3\<rparr> =
     ([Header_Set ''Content-Type'' ''application/json'', WriteHeader StatusOK,
       Encode_Requests (Slice [logo_design_main, web_shop_main])],
      \<lparr>requests = Slice [logo_design_main, web_shop_main], nextID = 3\<rparr>)"
  using main_listing_ignores_the_query [where e = "at 50"
      and r = "GET [(''supplier_email'', [''s1@x.com''])]" and r' = "GET []"
      and s = "\<lparr>requests = Slice [logo_design_main, web_shop_main], nextID = 3\<rparr>"]
  by (simp add: run_defs_main)


text \<open>
  C10. A listing returns the store it was given, collection and counter, in both
  variants, also when reached through \<^verbatim>\<open>CORSHandler\<close> and \<^verbatim>\<open>RequestsHandler\<close> with the
  method GET. The listed records are stored records, unchanged: a subsequence of the
  collection in the supplier-aware variant, the collection itself in the other.
\<close>

theorem listing_leaves_the_store_unchanged:
  "snd (listRequests e r s) = s \<and>
   (Method r = ''GET'' \<longrightarrow> snd (CORSHandler RequestsHandler e r s) = s) \<and>
   subseq (listed (fst (listRequests e r s))) (elems (requests s)) \<and>
   set (listed (fst (listRequests e r s))) \<subseteq> set (elems (requests s)) \<and>
   snd (listRequests_main e r' s') = s' \<and>
   (Method r' = ''GET'' \<longrightarrow> snd (CORSHandler RequestsHandler_main e r' s') = s') \<and>
   listed (fst (listRequests_main e r' s')) = elems (requests s')"
proof -
  have a: "snd (listRequests e r s) = s" by (simp add: listRequests_def Let_def)
  have b: "Method r = ''GET'' \<longrightarrow> snd (CORSHandler RequestsHandler e r s) = s"
    by (simp add: CORSHandler_def RequestsHandler_def listRequests_def Let_def)
  have c: "subseq (listed (fst (listRequests e r s))) (elems (requests s))"
    by (simp add: listed_listRequests elems_filteredRequests)
  have d: "set (listed (fst (listRequests e r s))) \<subseteq> set (elems (requests s))"
    by (auto simp: listed_listRequests elems_filteredRequests)
  have f: "snd (listRequests_main e r' s') = s'" by (simp add: listRequests_main_def)
  have g: "Method r' = ''GET'' \<longrightarrow> snd (CORSHandler RequestsHandler_main e r' s') = s'"
    by (simp add: CORSHandler_def RequestsHandler_main_def listRequests_main_def Let_def)
  have h: "listed (fst (listRequests_main e r' s')) = elems (requests s')"
    by (rule listed_listRequests_main)
  from a b c d f g h show ?thesis by (intro conjI)
qed

theorem listing_leaves_the_store_unchanged_witness:
  "Method (GET [(''supplier_email'', [''s2@x.com''])] :: Request http_Request) = ''GET'' \<and>
   CORSHandler RequestsHandler (at 50) (GET [(''supplier_email'', [''s2@x.com''])]) two_records =
     ([Header_Set ''Access-Control-Allow-Origin'' ''*'',
       Header_Set ''Access-Control-Allow-Methods'' ''GET, POST, OPTIONS'',
       Header_Set ''Access-Control-Allow-Headers'' ''Content-Type'',
       Header_Set ''Content-Type'' ''application/json'', WriteHeader StatusOK,
       Encode_Requests (Slice [web_shop\<lparr>ID := 2, CreatedAt := Instant 40\<rparr>])], two_records) \<and>
   Method (GET [] :: Request_main http_Request) = ''GET'' \<and>
   CORSHandler RequestsHandler_main (at 50) (GET [])
     \<lparr>requests = Slice [logo_design_main, web_shop_main], nextID = 3\<rparr> =
     ([Header_Set ''Access-Control-Allow-Origin'' ''*'',
       Header_Set ''Access-Control-Allow-Methods'' ''GET, POST, OPTIONS'',
       Header_Set ''Access-Control-Allow-Headers'' ''Content-Type'',
       Header_Set ''Content-Type'' ''application/json'', WriteHeader StatusOK,
       Encode_Requests (Slice [logo_design_main, web_shop_main])],
      \<lparr>requests = Slice [logo_design_main, web_shop_main], nextID = 3\<rparr>)"
  using listing_leaves_the_store_unchanged [where e = "at 50"
      and r = "GET [(''supplier_email'', [''s2@x.com''])]" and s = two_records
      and r' = "GET []"
      and s' = "\<lparr>requests = Slice [logo_design_main, web_shop_main], nextID = 3\<rparr>"]
  by (simp add: run_defs run_defs_main)

end
